theory Spec2Isabelle
  imports Main
begin

section \<open>Characters and strings\<close>

text \<open>
  The shell works on \<open>std::string\<close>, a sequence of bytes: \<open>string\<close> here. Three bytes
  cannot be written inside a string literal and get a name.
\<close>

definition squote :: char where
  "squote = CHR 0x27"

definition dquote :: char where
  "dquote = CHR 0x22"

definition backslash :: char where
  "backslash = CHR 0x5C"

text \<open>
  \<open>std::isspace\<close> on an \<open>unsigned char\<close>, in the C locale (the program never calls
  \<open>setlocale\<close>): space, and the five control characters from tab to carriage return.
\<close>

definition isspace :: "char \<Rightarrow> bool" where
  "isspace c \<longleftrightarrow>
     c = CHR 0x20 \<or> c = CHR 0x09 \<or> c = CHR 0x0A \<or> c = CHR 0x0B \<or> c = CHR 0x0C \<or> c = CHR 0x0D"

text \<open>
  \<open>trim\<close>: the two index loops of the source, then \<open>s.substr(a, b - a)\<close>. The index \<open>a\<close>
  never exceeds the size of \<open>s\<close> (lemma \<open>trim_front_le\<close>), so \<open>substr\<close> never throws.
\<close>

function trim_front :: "string \<Rightarrow> nat \<Rightarrow> nat" where
  "trim_front s a = (if a < length s \<and> isspace (s ! a) then trim_front s (a + 1) else a)"
  by pat_completeness auto
termination
  by (relation "measure (\<lambda>(s, a). length s - a)") auto

function trim_back :: "string \<Rightarrow> nat \<Rightarrow> nat \<Rightarrow> nat" where
  "trim_back s a b = (if b > a \<and> isspace (s ! (b - 1)) then trim_back s a (b - 1) else b)"
  by pat_completeness auto
termination
  by (relation "measure (\<lambda>(s, a, b). b)") auto

declare trim_front.simps [simp del] trim_back.simps [simp del]

definition substr :: "string \<Rightarrow> nat \<Rightarrow> nat \<Rightarrow> string" where
  "substr s pos n = take n (drop pos s)"

definition trim :: "string \<Rightarrow> string" where
  "trim s = (let a = trim_front s 0; b = trim_back s a (length s) in substr s a (b - a))"

section \<open>Tokens and the tokenizer\<close>

datatype TokenType = Word | Op

record Token =
  type :: TokenType
  "text" :: string

text \<open>
  The tokenizer's state is the line \<open>m_line\<close> and the read position \<open>m_i\<close>. The model
  carries the unread rest of the line, \<open>drop m_i m_line\<close>: \<open>eof()\<close> is the empty rest,
  \<open>peek()\<close> its head and \<open>get()\<close> takes the head off. Each reading function returns what it
  read together with the rest it leaves.
\<close>

definition skipWhitespace :: "string \<Rightarrow> string" where
  "skipWhitespace cs = dropWhile isspace cs"

definition isOperatorStart :: "char \<Rightarrow> bool" where
  "isOperatorStart c \<longleftrightarrow>
     c = CHR ''|'' \<or> c = CHR ''>'' \<or> c = CHR ''<'' \<or> c = CHR ''&'' \<or> c = CHR '';''"

text \<open>\<open>get()\<close> at the end of the line returns the NUL character and reads nothing.\<close>

fun readOperator :: "string \<Rightarrow> string \<times> string" where
  "readOperator [] = ([CHR 0x00], [])"
| "readOperator (c # cs) =
     (if c = CHR ''>'' then
        (case cs of
           [] \<Rightarrow> (''>'', cs)
         | d # ds \<Rightarrow> if d = CHR ''>'' then (''>>'', ds) else (''>'', cs))
      else ([c], cs))"

text \<open>
  The loop inside single quotes, entered after the opening quote: every character up to
  the next single quote is copied, and the closing quote, when there is one, is consumed.
\<close>

fun readWord_single :: "string \<Rightarrow> string \<Rightarrow> string \<times> string" where
  "readWord_single out [] = (out, [])"
| "readWord_single out (c # cs) =
     (if c = squote then (out, cs) else readWord_single (out @ [c]) cs)"

text \<open>
  The loop inside double quotes: a backslash that is not the last character of the line
  is dropped and the character after it copied, whatever it is.
\<close>

fun readWord_double :: "string \<Rightarrow> string \<Rightarrow> string \<times> string" where
  "readWord_double out [] = (out, [])"
| "readWord_double out [c] = (if c = dquote then (out, []) else (out @ [c], []))"
| "readWord_double out (c # d # ds) =
     (if c = dquote then (out, d # ds)
      else if c = backslash then readWord_double (out @ [d]) ds
      else readWord_double (out @ [c]) (d # ds))"

lemma readWord_single_length: "length (snd (readWord_single out cs)) \<le> length cs"
  by (induction out cs rule: readWord_single.induct) auto

lemma readWord_double_length: "length (snd (readWord_double out cs)) \<le> length cs"
  by (induction out cs rule: readWord_double.induct) auto

function readWord :: "string \<Rightarrow> string \<Rightarrow> string \<times> string" where
  "readWord out [] = (out, [])"
| "readWord out (c # cs) =
     (if isspace c \<or> isOperatorStart c then (out, c # cs)
      else if c = squote then
        readWord (fst (readWord_single out cs)) (snd (readWord_single out cs))
      else if c = dquote then
        readWord (fst (readWord_double out cs)) (snd (readWord_double out cs))
      else if c = backslash then
        (case cs of [] \<Rightarrow> (out, []) | d # ds \<Rightarrow> readWord (out @ [d]) ds)
      else readWord (out @ [c]) cs)"
  by pat_completeness auto
termination
proof (relation "measure (\<lambda>(out, cs). length cs)")
  show "wf (measure (\<lambda>(out, cs). length cs))" by simp
next
  fix out :: string and c cs
  show "((fst (readWord_single out cs), snd (readWord_single out cs)), (out, c # cs))
          \<in> measure (\<lambda>(out, cs). length cs)"
    using readWord_single_length [of out cs] by (simp add: split_beta)
next
  fix out :: string and c cs
  show "((fst (readWord_double out cs), snd (readWord_double out cs)), (out, c # cs))
          \<in> measure (\<lambda>(out, cs). length cs)"
    using readWord_double_length [of out cs] by (simp add: split_beta)
qed auto

lemma readWord_length: "length (snd (readWord out cs)) \<le> length cs"
proof (induction out cs rule: readWord.induct)
  case (1 out)
  show ?case by simp
next
  case (2 out c cs)
  show ?case
  proof (cases "isspace c \<or> isOperatorStart c")
    case True
    then show ?thesis by simp
  next
    case stop: False
    show ?thesis
    proof (cases "c = squote")
      case True
      with stop 2(1) readWord_single_length [of out cs] show ?thesis by simp
    next
      case nsq: False
      show ?thesis
      proof (cases "c = dquote")
        case True
        with stop nsq 2(2) readWord_double_length [of out cs] show ?thesis by simp
      next
        case ndq: False
        show ?thesis
        proof (cases "c = backslash")
          case True
          with stop nsq ndq 2(3) show ?thesis
            by (cases cs) (simp_all add: le_SucI)
        next
          case False
          with stop nsq ndq 2(4) show ?thesis by (simp add: le_SucI)
        qed
      qed
    qed
  qed
qed

text \<open>A word that starts at a character that does not stop it takes at least that character.\<close>

lemma readWord_progress:
  "\<not> isspace c \<Longrightarrow> \<not> isOperatorStart c \<Longrightarrow> length (snd (readWord out (c # cs))) \<le> length cs"
  using readWord_single_length [of out cs] readWord_double_length [of out cs]
    readWord_length [of "fst (readWord_single out cs)" "snd (readWord_single out cs)"]
    readWord_length [of "fst (readWord_double out cs)" "snd (readWord_double out cs)"]
    readWord_length [of "out @ [c]" cs]
  by (cases cs) (auto simp: le_SucI intro: order_trans [OF readWord_length])

lemma readOperator_progress: "length (snd (readOperator (c # cs))) \<le> length cs"
  by (cases cs) auto

lemma skipWhitespace_length: "length (skipWhitespace cs) \<le> length cs"
  by (simp add: skipWhitespace_def length_dropWhile_le)

lemma skipWhitespace_head: "skipWhitespace cs = c # rest \<Longrightarrow> \<not> isspace c"
  unfolding skipWhitespace_def by (metis hd_dropWhile list.sel(1) list.distinct(1))

function tokenize_loop :: "Token list \<Rightarrow> string \<Rightarrow> Token list" where
  "tokenize_loop out cs =
     (case skipWhitespace cs of
        [] \<Rightarrow> out
      | c # rest \<Rightarrow>
          if isOperatorStart c then
            tokenize_loop (out @ [\<lparr>type = Op, text = fst (readOperator (c # rest))\<rparr>])
              (snd (readOperator (c # rest)))
          else
            tokenize_loop (out @ [\<lparr>type = Word, text = fst (readWord [] (c # rest))\<rparr>])
              (snd (readWord [] (c # rest))))"
  by pat_completeness auto
termination
proof (relation "measure (\<lambda>(out, cs). length cs)")
  show "wf (measure (\<lambda>(out, cs). length cs))" by simp
next
  fix out :: "Token list" and cs c rest
  assume sk: "skipWhitespace cs = c # rest"
  have "length (snd (readOperator (c # rest))) < length (c # rest)"
    using readOperator_progress [of c rest] by simp
  with skipWhitespace_length [of cs] sk
  show "((out @ [\<lparr>type = Op, text = fst (readOperator (c # rest))\<rparr>],
           snd (readOperator (c # rest))), (out, cs)) \<in> measure (\<lambda>(out, cs). length cs)"
    by simp
next
  fix out :: "Token list" and cs c rest
  assume sk: "skipWhitespace cs = c # rest" and nop: "\<not> isOperatorStart c"
  have "length (snd (readWord [] (c # rest))) < length (c # rest)"
    using readWord_progress [OF skipWhitespace_head [OF sk] nop, of "[]" rest] by simp
  with skipWhitespace_length [of cs] sk
  show "((out @ [\<lparr>type = Word, text = fst (readWord [] (c # rest))\<rparr>],
           snd (readWord [] (c # rest))), (out, cs)) \<in> measure (\<lambda>(out, cs). length cs)"
    by simp
qed

declare tokenize_loop.simps [simp del]

definition tokenize :: "string \<Rightarrow> Token list" where
  "tokenize line = tokenize_loop [] line"

section \<open>The pipeline splitter\<close>

type_synonym Words = "string list"

text \<open>
  The loop of \<open>splitIntoPipeline\<close> over the tokens, with its two variables \<open>pipeline\<close>
  and \<open>current\<close>. The source has two branches only: an operator other than the pipe
  changes neither variable.
\<close>

fun splitIntoPipeline_loop :: "Token list \<Rightarrow> Words list \<Rightarrow> Words \<Rightarrow> Words list \<times> Words" where
  "splitIntoPipeline_loop [] pipeline current = (pipeline, current)"
| "splitIntoPipeline_loop (t # ts) pipeline current =
     (if type t = Op \<and> text t = ''|'' then splitIntoPipeline_loop ts (pipeline @ [current]) []
      else if type t = Word then splitIntoPipeline_loop ts pipeline (current @ [text t])
      else splitIntoPipeline_loop ts pipeline current)"

definition splitIntoPipeline :: "Token list \<Rightarrow> Words list" where
  "splitIntoPipeline tokens =
     (case splitIntoPipeline_loop tokens [] [] of
        (pipeline, current) \<Rightarrow> if current \<noteq> [] then pipeline @ [current] else pipeline)"

section \<open>The redirection extractor\<close>

record RedirectionInfo =
  stdin_file :: string
  stdout_file :: string
  stdout_append :: bool

definition no_redirection :: RedirectionInfo where
  "no_redirection = \<lparr>stdin_file = [], stdout_file = [], stdout_append = False\<rparr>"

text \<open>
  The loop of \<open>extractRedirections\<close> over the index \<open>i\<close>: an operator followed by a
  string advances \<open>i\<close> by two (the \<open>++i\<close> in the branch and the one of the loop), a last
  operator by one.
\<close>

function extractRedirections_loop ::
  "Words \<Rightarrow> nat \<Rightarrow> Words \<Rightarrow> RedirectionInfo \<Rightarrow> Words \<times> RedirectionInfo" where
  "extractRedirections_loop cmdTokens i argv r =
     (if i < length cmdTokens then
        if cmdTokens ! i = ''<'' then
          if i + 1 < length cmdTokens then
            extractRedirections_loop cmdTokens (i + 2) argv
              (r\<lparr>stdin_file := trim (cmdTokens ! (i + 1))\<rparr>)
          else extractRedirections_loop cmdTokens (i + 1) argv r
        else if cmdTokens ! i = ''>'' \<or> cmdTokens ! i = ''>>'' then
          if i + 1 < length cmdTokens then
            extractRedirections_loop cmdTokens (i + 2) argv
              (r\<lparr>stdout_file := trim (cmdTokens ! (i + 1)),
                 stdout_append := (cmdTokens ! i = ''>>'')\<rparr>)
          else extractRedirections_loop cmdTokens (i + 1) argv r
        else extractRedirections_loop cmdTokens (i + 1) (argv @ [cmdTokens ! i]) r
      else (argv, r))"
  by pat_completeness auto
termination
  by (relation "measure (\<lambda>(cmdTokens, i, argv, r). length cmdTokens - i)") auto

declare extractRedirections_loop.simps [simp del]

definition extractRedirections :: "Words \<Rightarrow> Words \<times> RedirectionInfo" where
  "extractRedirections cmdTokens = extractRedirections_loop cmdTokens 0 [] no_redirection"

section \<open>The operating system and the state of the shell\<close>

text \<open>
  How a process ended, as \<open>waitpid\<close> reports it in \<open>status\<close>. \<open>WIFEXITED\<close> holds of a
  process that ended by \<open>exit\<close>, \<open>_exit\<close> or a return from \<open>main\<close>, and \<open>WEXITSTATUS\<close> is
  then its exit code. POSIX fixes the status value 0 as that of a process that exited
  with code 0, so the source's \<open>int status = 0\<close> is \<open>Exited 0\<close>.
\<close>

datatype wstatus = Exited int | Signaled int

fun WIFEXITED :: "wstatus \<Rightarrow> bool" where
  "WIFEXITED (Exited c) = True"
| "WIFEXITED (Signaled g) = False"

fun WEXITSTATUS :: "wstatus \<Rightarrow> int" where
  "WEXITSTATUS (Exited c) = c"
| "WEXITSTATUS (Signaled g) = 0"

text \<open>
  What an open descriptor refers to: a stream the shell inherited, an end of the
  \<open>i\<close>-th pipe of the running pipeline, or a file opened for a redirection.
\<close>

datatype open_mode = ReadOnly | WriteTrunc | WriteAppend

datatype fobj = Inherited nat | PipeRead nat | PipeWrite nat | File string open_mode

type_synonym fdtable = "int \<rightharpoonup> fobj"

text \<open>
  The answers of the system, which the code cannot influence: the environment, whether
  a directory change succeeds (the message of the exception, or the new working
  directory), whether the working directory can be read (the message of the exception
  that \<open>fs::current_path()\<close> throws when it cannot), the result of the \<open>i\<close>-th \<open>pipe()\<close>, of the \<open>fork()\<close> for stage \<open>idx\<close> (the
  positive process id the parent sees, or failure), whether \<open>dup2\<close>, \<open>open\<close> and \<open>execvp\<close>
  fail in the child of stage \<open>idx\<close>, how the program run by process \<open>pid\<close> ends (\<open>None\<close>: it
  never does), and whether \<open>waitpid\<close> on \<open>pid\<close> fails.
\<close>

record os =
  getenv :: "string \<Rightarrow> string option"
  chdir :: "string \<Rightarrow> string \<Rightarrow> string + string"
  getcwd_error :: "string \<Rightarrow> string option"
  pipe_res :: "nat \<Rightarrow> (int \<times> int) option"
  fork_res :: "nat \<Rightarrow> nat option"
  dup2_fails :: "nat \<Rightarrow> int \<Rightarrow> int \<Rightarrow> bool"
  open_res :: "nat \<Rightarrow> string \<Rightarrow> open_mode \<Rightarrow> int option"
  execvp_fails :: "nat \<Rightarrow> Words \<Rightarrow> bool"
  run_program :: "nat \<Rightarrow> Words \<Rightarrow> wstatus option"
  wait_fails :: "nat \<Rightarrow> bool"

text \<open>
  What the child of a stage does between \<open>fork\<close> and the end of \<open>execvp\<close>: it leaves by
  \<open>_exit\<close> with a code, after \<open>perror\<close> of a message, or it becomes the program, with an
  argument vector and a descriptor table.
\<close>

datatype child_result = ChildExit int string | ChildExec Words fdtable

text \<open>
  A spawned process: the id that the source keeps in \<open>pids\<close>, together with what its
  child does, which decides what \<open>waitpid\<close> on that id reports.
\<close>

type_synonym process = "nat \<times> child_result"

record shell =
  cwd :: string
  fd_table :: fdtable
  spawned :: "process list"
  stdout_text :: string
  stderr_log :: "string list"

definition newline :: string where
  "newline = [CHR 0x0A]"

definition write_stdout :: "string \<Rightarrow> shell \<Rightarrow> shell" where
  "write_stdout s st = st\<lparr>stdout_text := stdout_text st @ s\<rparr>"

text \<open>
  One entry of \<open>stderr_log\<close> per message. For \<open>perror\<close> the entry is the text the program
  passes; the system completes the line with the description of \<open>errno\<close>.
\<close>

definition write_stderr :: "string \<Rightarrow> shell \<Rightarrow> shell" where
  "write_stderr s st = st\<lparr>stderr_log := stderr_log st @ [s]\<rparr>"

definition perror :: "string \<Rightarrow> shell \<Rightarrow> shell" where
  "perror s st = write_stderr s st"

definition getenv_or_empty :: "os \<Rightarrow> string \<Rightarrow> string" where
  "getenv_or_empty os name = (case getenv os name of None \<Rightarrow> [] | Some v \<Rightarrow> v)"

section \<open>Builtins\<close>

text \<open>
  \<open>fs::current_path(p)\<close> inside its \<open>try\<close> block: on an exception the handler writes the
  message and the working directory is as before.
\<close>

definition cd_to :: "os \<Rightarrow> string \<Rightarrow> shell \<Rightarrow> shell" where
  "cd_to os p st =
     (case chdir os (cwd st) p of
        Inl what \<Rightarrow> write_stderr (''cd: '' @ what @ newline) st
      | Inr d \<Rightarrow> st\<lparr>cwd := d\<rparr>)"

text \<open>The loop of \<open>echo\<close> over the words after the command name.\<close>

fun echo_loop :: "os \<Rightarrow> Words \<Rightarrow> string" where
  "echo_loop os [] = []"
| "echo_loop os (w # ws) =
     (if w \<noteq> [] \<and> hd w = CHR ''$'' then getenv_or_empty os (drop 1 w) else w)
     @ (if ws \<noteq> [] then '' '' else []) @ echo_loop os ws"

text \<open>
  \<open>tryRunInParent\<close> returns a boolean (\<open>Inr\<close>), or an exception leaves it (\<open>Inl\<close>, with the
  message): \<open>pwd\<close> calls \<open>fs::current_path()\<close> outside any \<open>try\<close> block, and that call throws
  when the working directory cannot be read.
\<close>

definition tryRunInParent :: "os \<Rightarrow> shell \<Rightarrow> Words \<Rightarrow> (string + bool) \<times> shell" where
  "tryRunInParent os st words =
     (case words of
        [] \<Rightarrow> (Inr False, st)
      | cmd # args \<Rightarrow>
          if cmd = ''cd'' then
            (case args of
               [] \<Rightarrow>
                 if getenv_or_empty os ''HOME'' = [] then
                   (Inr True, write_stderr (''cd: HOME not set'' @ newline) st)
                 else (Inr True, cd_to os (getenv_or_empty os ''HOME'') st)
             | dir # rest \<Rightarrow> (Inr True, cd_to os dir st))
          else if cmd = ''exit'' then (Inr True, st)
          else if cmd = ''pwd'' then
            (case getcwd_error os (cwd st) of
               Some what \<Rightarrow> (Inl what, st)
             | None \<Rightarrow> (Inr True, write_stdout (cwd st @ newline) st))
          else if cmd = ''echo'' then
            (Inr True, write_stdout (echo_loop os args @ newline) st)
          else (Inr False, st))"

section \<open>The executor\<close>

primrec closeAll :: "int list \<Rightarrow> fdtable \<Rightarrow> fdtable" where
  "closeAll [] t = t"
| "closeAll (fd # fds) t = closeAll fds (t(fd := None))"

text \<open>\<open>dup2\<close> fails on a descriptor that is not open, or when the system says so.\<close>

definition dup2 :: "os \<Rightarrow> nat \<Rightarrow> int \<Rightarrow> int \<Rightarrow> fdtable \<Rightarrow> fdtable option" where
  "dup2 os idx oldfd newfd t =
     (if t oldfd = None \<or> dup2_fails os idx oldfd newfd then None
      else Some (t(newfd := t oldfd)))"

definition STDIN_FILENO :: int where
  "STDIN_FILENO = 0"

definition STDOUT_FILENO :: int where
  "STDOUT_FILENO = 1"

text \<open>
  The child's steps in the order of the source. Each returns the descriptor table it
  leaves, or the message given to \<open>perror\<close> before \<open>_exit(127)\<close>.
\<close>

definition child_pipe_stdin :: "os \<Rightarrow> nat \<Rightarrow> int list \<Rightarrow> fdtable \<Rightarrow> string + fdtable" where
  "child_pipe_stdin os idx pipefds t =
     (if idx > 0 then
        (case dup2 os idx (pipefds ! ((idx - 1) * 2 + 0)) STDIN_FILENO t of
           None \<Rightarrow> Inl ''dup2 stdin''
         | Some t' \<Rightarrow> Inr t')
      else Inr t)"

definition child_pipe_stdout ::
  "os \<Rightarrow> nat \<Rightarrow> nat \<Rightarrow> int list \<Rightarrow> fdtable \<Rightarrow> string + fdtable" where
  "child_pipe_stdout os n idx pipefds t =
     (if idx + 1 < n then
        (case dup2 os idx (pipefds ! (idx * 2 + 1)) STDOUT_FILENO t of
           None \<Rightarrow> Inl ''dup2 stdout''
         | Some t' \<Rightarrow> Inr t')
      else Inr t)"

definition child_stdin_file ::
  "os \<Rightarrow> nat \<Rightarrow> RedirectionInfo \<Rightarrow> fdtable \<Rightarrow> string + fdtable" where
  "child_stdin_file os idx rinfo t =
     (if stdin_file rinfo \<noteq> [] then
        (case open_res os idx (stdin_file rinfo) ReadOnly of
           None \<Rightarrow> Inl (''open '' @ stdin_file rinfo)
         | Some in_fd \<Rightarrow>
             (case dup2 os idx in_fd STDIN_FILENO (t(in_fd \<mapsto> File (stdin_file rinfo) ReadOnly)) of
                None \<Rightarrow> Inl ''dup2 stdin-file''
              | Some t' \<Rightarrow> Inr (t'(in_fd := None))))
      else Inr t)"

definition child_stdout_file ::
  "os \<Rightarrow> nat \<Rightarrow> RedirectionInfo \<Rightarrow> fdtable \<Rightarrow> string + fdtable" where
  "child_stdout_file os idx rinfo t =
     (if stdout_file rinfo \<noteq> [] then
        (case open_res os idx (stdout_file rinfo)
                (if stdout_append rinfo then WriteAppend else WriteTrunc) of
           None \<Rightarrow> Inl (''open '' @ stdout_file rinfo)
         | Some out_fd \<Rightarrow>
             (case dup2 os idx out_fd STDOUT_FILENO
                     (t(out_fd \<mapsto> File (stdout_file rinfo)
                          (if stdout_append rinfo then WriteAppend else WriteTrunc))) of
                None \<Rightarrow> Inl ''dup2 stdout-file''
              | Some t' \<Rightarrow> Inr (t'(out_fd := None))))
      else Inr t)"

text \<open>
  The branch \<open>pid == 0\<close> of \<open>runPipeline\<close>. The caller has checked that \<open>argvWords\<close> is not
  empty, so \<open>argv[0]\<close> is its first word.
\<close>

definition child ::
  "os \<Rightarrow> nat \<Rightarrow> nat \<Rightarrow> int list \<Rightarrow> Words \<Rightarrow> RedirectionInfo \<Rightarrow> fdtable \<Rightarrow> child_result" where
  "child os n idx pipefds argvWords rinfo t =
     (case child_pipe_stdin os idx pipefds t of
        Inl m \<Rightarrow> ChildExit 127 m
      | Inr t1 \<Rightarrow>
     (case child_pipe_stdout os n idx pipefds t1 of
        Inl m \<Rightarrow> ChildExit 127 m
      | Inr t2 \<Rightarrow>
     (case child_stdin_file os idx rinfo (closeAll pipefds t2) of
        Inl m \<Rightarrow> ChildExit 127 m
      | Inr t3 \<Rightarrow>
     (case child_stdout_file os idx rinfo t3 of
        Inl m \<Rightarrow> ChildExit 127 m
      | Inr t4 \<Rightarrow>
          if execvp_fails os idx argvWords then ChildExit 127 (''execvp: '' @ hd argvWords)
          else ChildExec argvWords t4))))"

text \<open>The first loop of \<open>runPipeline\<close>: one pipe per pair of neighbouring stages.\<close>

function create_pipes ::
  "os \<Rightarrow> nat \<Rightarrow> nat \<Rightarrow> int list \<Rightarrow> shell \<Rightarrow> int list option \<times> shell" where
  "create_pipes os n i pipefds st =
     (if i + 1 < n then
        (case pipe_res os i of
           None \<Rightarrow> (None, perror ''pipe'' st)
         | Some (r, w) \<Rightarrow>
             create_pipes os n (i + 1) (pipefds @ [r, w])
               (st\<lparr>fd_table := (fd_table st)(r \<mapsto> PipeRead i, w \<mapsto> PipeWrite i)\<rparr>))
      else (Some pipefds, st))"
  by pat_completeness auto
termination
  by (relation "measure (\<lambda>(os, n, i, pipefds, st). n - i)") auto

declare create_pipes.simps [simp del]

text \<open>
  The second loop: a stage whose argument list is empty is passed over; a failed \<open>fork\<close>
  closes the pipe descriptors and ends \<open>runPipeline\<close>.
\<close>

function spawn_stages ::
  "os \<Rightarrow> Words list \<Rightarrow> nat \<Rightarrow> int list \<Rightarrow> process list \<Rightarrow> shell
     \<Rightarrow> process list option \<times> shell" where
  "spawn_stages os pipeline idx pipefds pids st =
     (if idx < length pipeline then
        (case extractRedirections (pipeline ! idx) of
           (argvWords, rinfo) \<Rightarrow>
             if argvWords = [] then spawn_stages os pipeline (idx + 1) pipefds pids st
             else
               (case fork_res os idx of
                  None \<Rightarrow>
                    (None, (perror ''fork'' st)\<lparr>fd_table := closeAll pipefds (fd_table st)\<rparr>)
                | Some pid \<Rightarrow>
                    spawn_stages os pipeline (idx + 1) pipefds
                      (pids @ [(pid,
                         child os (length pipeline) idx pipefds argvWords rinfo (fd_table st))])
                      (st\<lparr>spawned := spawned st @ [(pid,
                         child os (length pipeline) idx pipefds argvWords rinfo (fd_table st))]\<rparr>)))
      else (Some pids, st))"
  by pat_completeness auto
termination
  by (relation "measure (\<lambda>(os, pipeline, idx, pipefds, pids, st). length pipeline - idx)") auto

declare spawn_stages.simps [simp del]

text \<open>
  \<open>waitpid(pid, &status, 0)\<close>: it fails and leaves \<open>status\<close> alone, or it blocks until the
  process has ended and stores how it ended, or it blocks for ever.
\<close>

datatype wait_result = WaitFailed | WaitBlocks | WaitStatus wstatus

definition terminated :: "os \<Rightarrow> process \<Rightarrow> wstatus option" where
  "terminated os p =
     (case snd p of
        ChildExit c m \<Rightarrow> Some (Exited c)
      | ChildExec argv t \<Rightarrow> run_program os (fst p) argv)"

definition waitpid :: "os \<Rightarrow> process \<Rightarrow> wait_result" where
  "waitpid os p =
     (if wait_fails os (fst p) then WaitFailed
      else (case terminated os p of None \<Rightarrow> WaitBlocks | Some s \<Rightarrow> WaitStatus s))"

text \<open>The third loop. \<open>None\<close>: the shell is blocked in \<open>waitpid\<close> for ever.\<close>

fun wait_all :: "os \<Rightarrow> process list \<Rightarrow> wstatus \<Rightarrow> shell \<Rightarrow> wstatus option \<times> shell" where
  "wait_all os [] status st = (Some status, st)"
| "wait_all os (p # pids) status st =
     (case waitpid os p of
        WaitFailed \<Rightarrow> wait_all os pids status (perror ''waitpid'' st)
      | WaitBlocks \<Rightarrow> (None, st)
      | WaitStatus s \<Rightarrow> wait_all os pids s st)"

definition runPipeline :: "os \<Rightarrow> shell \<Rightarrow> Words list \<Rightarrow> int option \<times> shell" where
  "runPipeline os st pipeline =
     (if pipeline = [] then (Some 0, st)
      else
        (case create_pipes os (length pipeline) 0 [] st of
           (None, st1) \<Rightarrow> (Some (- 1), st1)
         | (Some pipefds, st1) \<Rightarrow>
        (case spawn_stages os pipeline 0 pipefds [] st1 of
           (None, st2) \<Rightarrow> (Some (- 1), st2)
         | (Some pids, st2) \<Rightarrow>
        (case wait_all os pids (Exited 0) (st2\<lparr>fd_table := closeAll pipefds (fd_table st2)\<rparr>) of
           (None, st3) \<Rightarrow> (None, st3)
         | (Some status, st3) \<Rightarrow>
             (Some (if WIFEXITED status then WEXITSTATUS status else - 1), st3)))))"

section \<open>The read loop\<close>

definition printPrompt :: "shell \<Rightarrow> shell" where
  "printPrompt st = write_stdout ''myshelll> '' st"

datatype loop_ctl = Break | Continue | Blocked | Terminate

text \<open>
  The body of the loop of \<open>main\<close> after a line has been read. \<open>Break\<close> and \<open>Continue\<close> are
  the statements of the source; \<open>Blocked\<close>: \<open>runPipeline\<close> never returns; \<open>Terminate\<close>: an
  exception leaves \<open>main\<close>, which has no handler, and the program is terminated. For a
  pipeline of one stage, \<open>single_stage\<close> says whether the body ends with \<open>continue\<close> before
  \<open>runPipeline\<close>: the argument list is empty, or a builtin handled it.
\<close>

definition single_stage :: "os \<Rightarrow> shell \<Rightarrow> Words \<Rightarrow> (string + bool) \<times> shell" where
  "single_stage os st stage =
     (case extractRedirections stage of
        (argvWords, rinfo) \<Rightarrow>
          if argvWords = [] then (Inr True, st) else tryRunInParent os st argvWords)"

definition main_iter :: "os \<Rightarrow> shell \<Rightarrow> string \<Rightarrow> loop_ctl \<times> shell" where
  "main_iter os st line =
     (if trim line = [] then (Continue, st)
      else
        let tokens = tokenize line in
        if length tokens = 1 \<and> type (tokens ! 0) = Word \<and> text (tokens ! 0) = ''exit''
        then (Break, st)
        else
          let pipeline = splitIntoPipeline tokens in
          if pipeline = [] then (Continue, st)
          else
            (case (if length pipeline = 1 then single_stage os st (hd pipeline)
                   else (Inr False, st)) of
               (Inl what, st1) \<Rightarrow> (Terminate, st1)
             | (Inr True, st1) \<Rightarrow> (Continue, st1)
             | (Inr False, st1) \<Rightarrow>
                 (case runPipeline os st1 pipeline of
                    (None, st2) \<Rightarrow> (Blocked, st2)
                  | (Some exit_status, st2) \<Rightarrow> (Continue, st2))))"

text \<open>
  How a run of \<open>main\<close> ends: it returns a value, it never returns (the shell is blocked
  in \<open>waitpid\<close>), or it is terminated by an exception nothing catches.
\<close>

datatype main_result = Returns int | NeverReturns | Terminated

text \<open>
  \<open>main\<close> on the lines that standard input holds: the end of input writes a newline and
  leaves the loop.
\<close>

fun main_loop :: "os \<Rightarrow> shell \<Rightarrow> string list \<Rightarrow> main_result \<times> shell" where
  "main_loop os st [] = (Returns 0, write_stdout newline (printPrompt st))"
| "main_loop os st (line # lines) =
     (case main_iter os (printPrompt st) line of
        (Break, st') \<Rightarrow> (Returns 0, st')
      | (Continue, st') \<Rightarrow> main_loop os st' lines
      | (Blocked, st') \<Rightarrow> (NeverReturns, st')
      | (Terminate, st') \<Rightarrow> (Terminated, st'))"

section \<open>Notions of the specification\<close>

text \<open>
  The redirection extractor as the specification words it: a scan from left to right
  meets an argument, an operator with the string after it, or an operator that is the
  last string. A string taken as a file name is not met again.
\<close>

datatype redirection_item =
  Argument string | InputFrom string | OutputTo string bool | LoneOperator string

fun scan_stage :: "Words \<Rightarrow> redirection_item list" where
  "scan_stage [] = []"
| "scan_stage [t] =
     (if t = ''<'' \<or> t = ''>'' \<or> t = ''>>'' then [LoneOperator t] else [Argument t])"
| "scan_stage (t # f # ws) =
     (if t = ''<'' then InputFrom f # scan_stage ws
      else if t = ''>'' \<or> t = ''>>'' then OutputTo f (t = ''>>'') # scan_stage ws
      else Argument t # scan_stage (f # ws))"

fun arguments :: "redirection_item list \<Rightarrow> Words" where
  "arguments [] = []"
| "arguments (Argument a # items) = a # arguments items"
| "arguments (item # items) = arguments items"

fun inputs :: "redirection_item list \<Rightarrow> string list" where
  "inputs [] = []"
| "inputs (InputFrom f # items) = f # inputs items"
| "inputs (item # items) = inputs items"

fun outputs :: "redirection_item list \<Rightarrow> (string \<times> bool) list" where
  "outputs [] = []"
| "outputs (OutputTo f a # items) = (f, a) # outputs items"
| "outputs (item # items) = outputs items"

text \<open>
  The last redirection of each direction wins; a direction with none keeps what \<open>r\<close>
  holds.
\<close>

definition last_wins :: "RedirectionInfo \<Rightarrow> redirection_item list \<Rightarrow> RedirectionInfo" where
  "last_wins r items =
     \<lparr>stdin_file = (if inputs items = [] then stdin_file r else trim (last (inputs items))),
      stdout_file =
        (if outputs items = [] then stdout_file r else trim (fst (last (outputs items)))),
      stdout_append =
        (if outputs items = [] then stdout_append r else snd (last (outputs items)))\<rparr>"












text \<open>The pipe operator, the tokens after the last one, and the words among tokens.\<close>

definition is_pipe :: "Token \<Rightarrow> bool" where
  "is_pipe t \<longleftrightarrow> type t = Op \<and> text t = ''|''"

definition after_last_pipe :: "Token list \<Rightarrow> Token list" where
  "after_last_pipe ts = rev (takeWhile (\<lambda>t. \<not> is_pipe t) (rev ts))"

definition word_texts :: "Token list \<Rightarrow> Words" where
  "word_texts ts = map text (filter (\<lambda>t. type t = Word) ts)"

text \<open>
  A system for the concrete runs below: \<open>HOME\<close> is not set, no directory can be entered,
  the working directory can be read, and nothing else fails but \<open>execvp\<close> of the empty
  name.
\<close>

definition quiet_os :: os where
  "quiet_os =
     \<lparr>getenv = (\<lambda>name. None),
      chdir = (\<lambda>dir p. Inl ''No such file or directory''),
      getcwd_error = (\<lambda>dir. None),
      pipe_res = (\<lambda>i. Some (3 + 2 * int i, 4 + 2 * int i)),
      fork_res = (\<lambda>idx. Some (100 + idx)),
      dup2_fails = (\<lambda>idx oldfd newfd. False),
      open_res = (\<lambda>idx path mode. Some 20),
      execvp_fails = (\<lambda>idx argv. hd argv = []),
      run_program = (\<lambda>pid argv. Some (Exited 0)),
      wait_fails = (\<lambda>pid. False)\<rparr>"

text \<open>
  The same system when every \<open>waitpid\<close> fails, as it does for a shell started with
  \<open>SIGCHLD\<close> ignored, and every program is killed by signal 9.
\<close>

definition ignoring_os :: os where
  "ignoring_os =
     quiet_os\<lparr>wait_fails := (\<lambda>pid. True), run_program := (\<lambda>pid argv. Some (Signaled 9))\<rparr>"

text \<open>
  The system in which the first process exits with code 7, the second is killed by
  signal 9, and only the wait for the second fails.
\<close>

definition last_wait_fails_os :: os where
  "last_wait_fails_os =
     quiet_os\<lparr>wait_fails := (\<lambda>pid. pid = 101),
       run_program := (\<lambda>pid argv. Some (if pid = 101 then Signaled 9 else Exited 7))\<rparr>"

text \<open>A shell that has just started, with its three standard streams.\<close>

definition shell0 :: shell where
  "shell0 =
     \<lparr>cwd = ''/home/user'',
      fd_table = [0 \<mapsto> Inherited 0, 1 \<mapsto> Inherited 1, 2 \<mapsto> Inherited 2],
      spawned = [],
      stdout_text = [],
      stderr_log = []\<rparr>"

section \<open>Lemmas\<close>

subsection \<open>Trimming and empty lines\<close>

lemma trim_front_spaces: "a \<le> k \<Longrightarrow> k < trim_front s a \<Longrightarrow> isspace (s ! k)"
proof (induction s a rule: trim_front.induct)
  case (1 s a)
  show ?case
  proof (cases "a < length s \<and> isspace (s ! a)")
    case True
    with 1 show ?thesis
      by (cases "k = a") (simp_all add: trim_front.simps [of s a])
  next
    case False
    with 1(2,3) show ?thesis by (simp add: trim_front.simps [of s a])
  qed
qed

lemma trim_front_stop:
  "trim_front s a < length s \<Longrightarrow> \<not> isspace (s ! trim_front s a)"
proof (induction s a rule: trim_front.induct)
  case (1 s a)
  then show ?case
    by (cases "a < length s \<and> isspace (s ! a)") (auto simp: trim_front.simps [of s a])
qed

lemma trim_back_bounds: "a \<le> b \<Longrightarrow> a \<le> trim_back s a b \<and> trim_back s a b \<le> b"
proof (induction s a b rule: trim_back.induct)
  case (1 s a b)
  show ?case
  proof (cases "a < b \<and> isspace (s ! (b - 1))")
    case True
    then have "a \<le> b - 1" by arith
    from 1(1) [OF True this] True show ?thesis
      by (simp add: trim_back.simps [of s a b]) arith
  next
    case False
    have "trim_back s a b = b"
      by (subst trim_back.simps) (simp only: False if_False)
    with 1(2) show ?thesis by simp
  qed
qed

lemma trim_back_gt: "a < b \<Longrightarrow> \<not> isspace (s ! a) \<Longrightarrow> a < trim_back s a b"
proof (induction s a b rule: trim_back.induct)
  case (1 s a b)
  show ?case
  proof (cases "a < b \<and> isspace (s ! (b - 1))")
    case True
    with 1(3) have "b - 1 \<noteq> a" by auto
    with True have "a < b - 1" by arith
    with 1(1) [OF True] 1(3) True show ?thesis by (simp add: trim_back.simps [of s a b])
  next
    case False
    with 1(2) show ?thesis by (simp add: trim_back.simps [of s a b])
  qed
qed

lemma trim_empty_spaces:
  assumes "trim s = []"
  shows "\<forall>c \<in> set s. isspace c"
proof -
  let ?a = "trim_front s 0"
  have "\<not> ?a < length s"
  proof
    assume inside: "?a < length s"
    then have "?a < trim_back s ?a (length s)"
      by (intro trim_back_gt trim_front_stop)
    with inside have "take (trim_back s ?a (length s) - ?a) (drop ?a s) \<noteq> []" by simp
    with assms show False by (simp add: trim_def substr_def Let_def)
  qed
  then have "\<forall>k < length s. isspace (s ! k)"
    using trim_front_spaces [of 0 _ s] by auto
  then show ?thesis by (auto simp: in_set_conv_nth)
qed

lemma tokenize_trim_empty:
  assumes "trim line = []"
  shows "tokenize line = []"
proof -
  have "skipWhitespace line = []"
    using trim_empty_spaces [OF assms] by (simp add: skipWhitespace_def)
  then show ?thesis
    unfolding tokenize_def by (subst tokenize_loop.simps) (simp only: list.case)
qed

lemma single_exit_iff:
  "length tokens = 1 \<and> type (tokens ! 0) = Word \<and> text (tokens ! 0) = ''exit''
     \<longleftrightarrow> tokens = [\<lparr>type = Word, text = ''exit''\<rparr>]"
proof (cases tokens)
  case Nil
  then show ?thesis by simp
next
  case (Cons t ts)
  then show ?thesis by (cases t) auto
qed

subsection \<open>Words made of spans\<close>








subsection \<open>The splitter's loop\<close>

lemma splitIntoPipeline_loop_append:
  "splitIntoPipeline_loop (xs @ ys) pipeline current =
     splitIntoPipeline_loop ys (fst (splitIntoPipeline_loop xs pipeline current))
       (snd (splitIntoPipeline_loop xs pipeline current))"
  by (induction xs arbitrary: pipeline current) auto

lemma splitIntoPipeline_loop_stages:
  "length (fst (splitIntoPipeline_loop ts pipeline current)) = length pipeline + length (filter is_pipe ts)"
  by (induction ts arbitrary: pipeline current) (auto simp: is_pipe_def)

lemma after_last_pipe_snoc:
  "after_last_pipe (ts @ [t]) = (if is_pipe t then [] else after_last_pipe ts @ [t])"
  by (simp add: after_last_pipe_def)

lemma splitIntoPipeline_loop_current:
  "snd (splitIntoPipeline_loop ts pipeline current) =
     (if \<exists>t \<in> set ts. is_pipe t then [] else current) @ word_texts (after_last_pipe ts)"
proof (induction ts rule: rev_induct)
  case Nil
  show ?case by (simp add: after_last_pipe_def word_texts_def)
next
  case (snoc t ts)
  show ?case
    using snoc
    by (cases "type t") (auto simp: splitIntoPipeline_loop_append after_last_pipe_snoc word_texts_def is_pipe_def)
qed


subsection \<open>The extractor's loop\<close>

lemma last_wins_Nil: "last_wins r [] = r"
  by (simp add: last_wins_def)

lemma last_wins_Argument: "last_wins r (Argument a # items) = last_wins r items"
  by (simp add: last_wins_def)

lemma last_wins_LoneOperator: "last_wins r (LoneOperator t # items) = last_wins r items"
  by (simp add: last_wins_def)

lemma last_wins_InputFrom:
  "last_wins r (InputFrom f # items) = last_wins (r\<lparr>stdin_file := trim f\<rparr>) items"
  by (simp add: last_wins_def)

lemma last_wins_OutputTo:
  "last_wins r (OutputTo f a # items) = last_wins (r\<lparr>stdout_file := trim f, stdout_append := a\<rparr>) items"
  by (simp add: last_wins_def)

lemma drop_two: "Suc i < length ws \<Longrightarrow> drop i ws = ws ! i # ws ! Suc i # drop (Suc (Suc i)) ws"
  by (simp add: Cons_nth_drop_Suc Suc_lessD)

lemma drop_last: "i < length ws \<Longrightarrow> \<not> Suc i < length ws \<Longrightarrow> drop i ws = [ws ! i]"
  by (metis Cons_nth_drop_Suc drop_all not_less)

lemma extractRedirections_loop_scan:
  "extractRedirections_loop ws i argv r =
     (argv @ arguments (scan_stage (drop i ws)), last_wins r (scan_stage (drop i ws)))"
proof (induction ws i argv r rule: extractRedirections_loop.induct)
  case (1 ws i argv r)
  show ?case
  proof (cases "i < length ws")
    case False
    then show ?thesis
      by (simp add: extractRedirections_loop.simps [of ws i] last_wins_Nil)
  next
    case inside: True
    show ?thesis
    proof (cases "Suc i < length ws")
      case True
      note d = drop_two [OF True] Cons_nth_drop_Suc [OF True, symmetric]
      from True inside 1(1) 1(3) 1(5) show ?thesis
        by (simp add: extractRedirections_loop.simps [of ws i] d
            last_wins_InputFrom last_wins_OutputTo last_wins_Argument)
    next
      case False
      note d = drop_last [OF inside False]
      from False inside 1(2) 1(4) 1(5) show ?thesis
        by (simp add: extractRedirections_loop.simps [of ws i] d
            last_wins_LoneOperator last_wins_Argument last_wins_Nil)
    qed
  qed
qed

subsection \<open>Lines that run a builtin\<close>

lemma extractRedirections_exit: "extractRedirections [''exit''] = ([''exit''], no_redirection)"
  by code_simp

lemma cd_line_tokens:
  assumes "splitIntoPipeline (tokenize line) = [stage]"
    and "fst (extractRedirections stage) = ''cd'' # args"
  shows "trim line \<noteq> []" and "tokenize line \<noteq> [\<lparr>type = Word, text = ''exit''\<rparr>]"
proof -
  show "trim line \<noteq> []"
  proof
    assume "trim line = []"
    then have "tokenize line = []" by (rule tokenize_trim_empty)
    with assms(1) show False by (simp add: splitIntoPipeline_def)
  qed
  show "tokenize line \<noteq> [\<lparr>type = Word, text = ''exit''\<rparr>]"
  proof
    assume "tokenize line = [\<lparr>type = Word, text = ''exit''\<rparr>]"
    with assms(1) have "stage = [''exit'']" by (simp add: splitIntoPipeline_def)
    with assms(2) show False by (simp add: extractRedirections_exit)
  qed
qed

subsection \<open>The executor's loops\<close>

lemma wait_all_last:
  "\<forall>q \<in> set pids. waitpid os q \<noteq> WaitBlocks \<Longrightarrow> waitpid os p = WaitStatus s
     \<Longrightarrow> fst (wait_all os (pids @ [p]) status st) = Some s"
proof (induction pids arbitrary: status st)
  case Nil
  then show ?case by simp
next
  case (Cons q pids)
  then show ?case by (cases "waitpid os q") simp_all
qed

lemma spawn_stages_last:
  "spawn_stages os pipeline idx pipefds pids st = (Some pids', st') \<Longrightarrow> idx < length pipeline
     \<Longrightarrow> fst (extractRedirections (last pipeline)) \<noteq> []
     \<Longrightarrow> pids' \<noteq> [] \<and> snd (last pids') =
           child os (length pipeline) (length pipeline - 1) pipefds
             (fst (extractRedirections (last pipeline)))
             (snd (extractRedirections (last pipeline))) (fd_table st)"
proof (induction os pipeline idx pipefds pids st rule: spawn_stages.induct)
  case (1 os pipeline idx pipefds pids st)
  obtain argvWords rinfo where ex: "extractRedirections (pipeline ! idx) = (argvWords, rinfo)"
    by (cases "extractRedirections (pipeline ! idx)")
  from "1.prems"(2) have ne: "pipeline \<noteq> []" by auto
  show ?case
  proof (cases "Suc idx < length pipeline")
    case more: True
    show ?thesis
    proof (cases "argvWords = []")
      case True
      with "1.prems" ex more "1.IH"(1) [OF "1.prems"(2) ex [symmetric] True] show ?thesis
        by (simp add: spawn_stages.simps [of os pipeline idx])
    next
      case False
      with "1.prems"(1,2) ex obtain pid where f: "fork_res os idx = Some pid"
        by (cases "fork_res os idx") (auto simp: spawn_stages.simps [of os pipeline idx])
      from "1.prems" ex more False f "1.IH"(2) [OF "1.prems"(2) ex [symmetric] False f]
      show ?thesis
        by (simp add: spawn_stages.simps [of os pipeline idx])
    qed
  next
    case False
    with "1.prems"(2) have idx: "idx = length pipeline - 1" by arith
    with ne have lst: "pipeline ! idx = last pipeline" by (simp add: last_conv_nth)
    with "1.prems"(3) ex have argv: "argvWords \<noteq> []" by simp
    with "1.prems"(1,2) ex obtain pid where f: "fork_res os idx = Some pid"
      by (cases "fork_res os idx") (auto simp: spawn_stages.simps [of os pipeline idx])
    have "spawn_stages os pipeline idx pipefds pids st =
        (Some (pids @ [(pid, child os (length pipeline) idx pipefds argvWords rinfo (fd_table st))]),
         st\<lparr>spawned := spawned st @
           [(pid, child os (length pipeline) idx pipefds argvWords rinfo (fd_table st))]\<rparr>)"
      using "1.prems"(2) ex argv f False
      by (simp add: spawn_stages.simps [of os pipeline idx]
          spawn_stages.simps [of os pipeline "Suc idx"])
    with "1.prems"(1) have "pids' \<noteq> [] \<and> snd (last pids') =
        child os (length pipeline) idx pipefds argvWords rinfo (fd_table st)"
      by auto
    with ex lst idx show ?thesis by simp
  qed
qed

text \<open>
  When the pipes and the processes of a pipeline are created, at least one process is
  spawned, no wait blocks for ever and the wait for the last spawned process does not
  fail, that process has ended and \<open>runPipeline\<close> returns its exit code if it exited, and
  \<open>-1\<close> if a signal ended it. The last spawned process is the child of the last stage
  whenever that stage has a non-empty argument list.
\<close>

lemma runPipeline_status_when_wait_succeeds:
  assumes "pipeline \<noteq> []"
    and "create_pipes os (length pipeline) 0 [] st = (Some pipefds, st1)"
    and "spawn_stages os pipeline 0 pipefds [] st1 = (Some pids, st2)"
    and "pids \<noteq> []"
    and "\<forall>q \<in> set pids. waitpid os q \<noteq> WaitBlocks"
    and "\<not> wait_fails os (fst (last pids))"
  shows "terminated os (last pids) \<noteq> None
    \<and> (terminated os (last pids) = Some (Exited c) \<longrightarrow> fst (runPipeline os st pipeline) = Some c)
    \<and> (terminated os (last pids) = Some (Signaled g) \<longrightarrow> fst (runPipeline os st pipeline) = Some (- 1))
    \<and> (fst (extractRedirections (last pipeline)) \<noteq> [] \<longrightarrow>
          snd (last pids) = child os (length pipeline) (length pipeline - 1) pipefds
             (fst (extractRedirections (last pipeline)))
             (snd (extractRedirections (last pipeline))) (fd_table st1))"
proof -
  from assms(4) obtain ps p where pids: "pids = ps @ [p]"
    by (metis append_butlast_last_id)
  from assms(5) pids have nb: "waitpid os p \<noteq> WaitBlocks" and nbs: "\<forall>q \<in> set ps. waitpid os q \<noteq> WaitBlocks"
    by simp_all
  from assms(6) pids nb obtain s where t: "terminated os p = Some s" and w: "waitpid os p = WaitStatus s"
    by (cases "terminated os p") (auto simp: waitpid_def)
  have "fst (wait_all os pids (Exited 0) (st2\<lparr>fd_table := closeAll pipefds (fd_table st2)\<rparr>)) = Some s"
    unfolding pids by (rule wait_all_last [OF nbs w])
  with assms(1,2,3) have r: "fst (runPipeline os st pipeline) = Some (if WIFEXITED s then WEXITSTATUS s else - 1)"
    by (simp add: runPipeline_def split_beta split: option.splits prod.splits)
  have li: "fst (extractRedirections (last pipeline)) \<noteq> [] \<longrightarrow>
          snd (last pids) = child os (length pipeline) (length pipeline - 1) pipefds
             (fst (extractRedirections (last pipeline)))
             (snd (extractRedirections (last pipeline))) (fd_table st1)"
    using spawn_stages_last [OF assms(3)] assms(1) by simp
  from t r pids li show ?thesis by auto
qed


text \<open>
  A pipeline \<open>ls | wc\<close> whose last process exits with code 3, and one whose last process
  is killed.
\<close>

lemma runPipeline_status_when_wait_succeeds_example:
  "fst (runPipeline (quiet_os\<lparr>run_program := (\<lambda>pid argv. Some (Exited (if pid = 101 then 3 else 0)))\<rparr>)
          shell0 [[''ls''], [''wc'']]) = Some 3
   \<and> fst (runPipeline (quiet_os\<lparr>run_program := (\<lambda>pid argv. Some (if pid = 101 then Signaled 9 else Exited 0))\<rparr>)
          shell0 [[''ls''], [''wc'']]) = Some (- 1)"
proof -
  define st1 where "st1 = shell0\<lparr>fd_table := (fd_table shell0)(3 \<mapsto> PipeRead 0, 4 \<mapsto> PipeWrite 0)\<rparr>"
  define t1 where "t1 = (fd_table st1)(1 := fd_table st1 4, 3 := None, 4 := None)"
  define t2 where "t2 = (fd_table st1)(0 := fd_table st1 3, 3 := None, 4 := None)"
  define pids where "pids = [(100::nat, ChildExec [''ls''] t1), (101, ChildExec [''wc''] t2)]"
  have ex: "extractRedirections [''ls''] = ([''ls''], no_redirection)"
    "extractRedirections [''wc''] = ([''wc''], no_redirection)" by code_simp+
  have result: "fst (runPipeline os shell0 [[''ls''], [''wc'']]) =
      Some (case run_program os 101 [''wc''] of Some (Exited c) \<Rightarrow> c | _ \<Rightarrow> - 1)"
    if os: "pipe_res os = pipe_res quiet_os" "fork_res os = fork_res quiet_os"
      "dup2_fails os = dup2_fails quiet_os" "execvp_fails os = execvp_fails quiet_os"
      "wait_fails os = wait_fails quiet_os" "\<forall>pid argv. run_program os pid argv \<noteq> None" for os
  proof -
    have cp: "create_pipes os (length [[''ls''], [''wc'']]) 0 [] shell0 = (Some [3, 4], st1)"
      by (simp add: create_pipes.simps os quiet_os_def st1_def)
    have c0: "child os (Suc (Suc 0)) 0 [3, 4] [''ls''] no_redirection (fd_table st1) = ChildExec [''ls''] t1"
      by (simp add: child_def child_pipe_stdin_def child_pipe_stdout_def child_stdin_file_def
          child_stdout_file_def no_redirection_def dup2_def STDOUT_FILENO_def os quiet_os_def
          st1_def t1_def shell0_def)
    have c1: "child os (Suc (Suc 0)) (Suc 0) [3, 4] [''wc''] no_redirection (fd_table st1) = ChildExec [''wc''] t2"
      by (simp add: child_def child_pipe_stdin_def child_pipe_stdout_def child_stdin_file_def
          child_stdout_file_def no_redirection_def dup2_def STDIN_FILENO_def os quiet_os_def
          st1_def t2_def shell0_def)
    have sp: "spawn_stages os [[''ls''], [''wc'']] 0 [3, 4] [] st1 = (Some pids, st1\<lparr>spawned := spawned st1 @ pids\<rparr>)"
      by (simp add: spawn_stages.simps ex c0 c1 os quiet_os_def pids_def)
    have r0: "run_program os 100 [''ls''] \<noteq> None" and r1: "run_program os 101 [''wc''] \<noteq> None"
      using os(6) by blast+
    have nb: "\<forall>q \<in> set pids. waitpid os q \<noteq> WaitBlocks"
      using r0 r1 by (auto simp: pids_def waitpid_def terminated_def split: option.splits)
    have wf: "\<not> wait_fails os (fst (last pids))"
      by (simp add: pids_def os quiet_os_def)
    have t: "terminated os (last pids) = run_program os 101 [''wc'']"
      by (simp add: pids_def terminated_def)
    show ?thesis
      using runPipeline_status_when_wait_succeeds [OF _ cp sp _ nb wf] t r1
      by (cases "run_program os 101 [''wc'']"; cases "the (run_program os 101 [''wc''])")
         (auto simp: pids_def)
  qed
  show ?thesis
    by (simp add: result)
qed


lemma closeAll_closes: "fd \<in> set fds \<Longrightarrow> closeAll fds t fd = None"
proof (induction fds arbitrary: t)
  case Nil
  then show ?case by simp
next
  case (Cons a fds)
  have keep: "closeAll fds t' a = None" if "t' a = None" for t'
    using that by (induction fds arbitrary: t') auto
  from Cons show ?case by (cases "fd \<in> set fds") (auto simp: keep)
qed

lemma spawn_stages_failure_closes_pipes:
  "spawn_stages os pipeline idx pipefds pids st = (None, st') \<Longrightarrow> fd \<in> set pipefds
     \<Longrightarrow> fd_table st' fd = None"
proof (induction os pipeline idx pipefds pids st rule: spawn_stages.induct)
  case (1 os pipeline idx pipefds pids st)
  obtain argvWords rinfo where ex: "extractRedirections (pipeline ! idx) = (argvWords, rinfo)"
    by (cases "extractRedirections (pipeline ! idx)")
  show ?case
  proof (cases "idx < length pipeline")
    case False
    with "1.prems"(1) show ?thesis by (simp add: spawn_stages.simps [of os pipeline idx])
  next
    case inside: True
    show ?thesis
    proof (cases "argvWords = []")
      case True
      with "1.prems" ex inside "1.IH"(1) [OF inside ex [symmetric] True] show ?thesis
        by (simp add: spawn_stages.simps [of os pipeline idx])
    next
      case False
      show ?thesis
      proof (cases "fork_res os idx")
        case None
        with "1.prems" ex inside False show ?thesis
          by (auto simp: spawn_stages.simps [of os pipeline idx] perror_def write_stderr_def
              closeAll_closes)
      next
        case (Some pid)
        with "1.prems" ex inside False "1.IH"(2) [OF inside ex [symmetric] False Some]
        show ?thesis by (simp add: spawn_stages.simps [of os pipeline idx])
      qed
    qed
  qed
qed

section \<open>Claims\<close>

subsection \<open>C1: redirection operators and the splitter\<close>

text \<open>
  C1 asks that the splitter keep the operators \<open><\<close>, \<open>>\<close> and \<open>>>\<close> in the stage it builds,
  so that the extractor sees them. The code does not: on the line \<open>ls > files.txt\<close> of the
  project's own usage examples the tokenizer yields the operator, the splitter drops it,
  the stage is \<open>ls files.txt\<close>, and the extractor finds no redirection in it.
\<close>

theorem splitIntoPipeline_discards_redirection_operators:
  "tokenize ''ls > files.txt'' =
     [\<lparr>type = Word, text = ''ls''\<rparr>, \<lparr>type = Op, text = ''>''\<rparr>,
      \<lparr>type = Word, text = ''files.txt''\<rparr>]
   \<and> splitIntoPipeline (tokenize ''ls > files.txt'') = [[''ls'', ''files.txt'']]
   \<and> ''>'' \<notin> set (hd (splitIntoPipeline (tokenize ''ls > files.txt'')))
   \<and> extractRedirections (hd (splitIntoPipeline (tokenize ''ls > files.txt'')))
       = ([''ls'', ''files.txt''], no_redirection)"
  by code_simp

subsection \<open>C2: the result of a pipeline\<close>

text \<open>
  C2 asks that \<open>runPipeline\<close> return the exit status of the last stage's process when it
  exited, and \<open>-1\<close> when it did not. The code does so when the wait for that process
  succeeds (lemma \<open>runPipeline_status_when_wait_succeeds\<close>), but a failed \<open>waitpid\<close> leaves
  \<open>status\<close> as it was and the code decodes it all the same. In \<open>sleep 9\<close>, killed by a
  signal while no wait succeeds, the result is 0, the initial value; in \<open>ls | wc\<close>, where
  \<open>ls\<close> exits with code 7 and \<open>wc\<close> is killed and only its wait fails, the result is 7,
  the status of \<open>ls\<close>. In both the last process was ended by a signal and the result
  is not \<open>-1\<close>.
\<close>

theorem runPipeline_failed_wait_stale_status:
  "spawned (snd (runPipeline ignoring_os shell0 [[''sleep'', ''9'']]))
     = [(100, ChildExec [''sleep'', ''9''] (fd_table shell0))]
   \<and> terminated ignoring_os (100, ChildExec [''sleep'', ''9''] (fd_table shell0))
     = Some (Signaled 9)
   \<and> fst (runPipeline ignoring_os shell0 [[''sleep'', ''9'']]) = Some 0
   \<and> map fst (spawned (snd (runPipeline last_wait_fails_os shell0 [[''ls''], [''wc'']])))
     = [100, 101]
   \<and> map (terminated last_wait_fails_os)
         (spawned (snd (runPipeline last_wait_fails_os shell0 [[''ls''], [''wc'']])))
     = [Some (Exited 7), Some (Signaled 9)]
   \<and> fst (runPipeline last_wait_fails_os shell0 [[''ls''], [''wc'']]) = Some 7"
proof -
  have ex: "extractRedirections [''sleep'', ''9''] = ([''sleep'', ''9''], no_redirection)"
    "extractRedirections [''ls''] = ([''ls''], no_redirection)"
    "extractRedirections [''wc''] = ([''wc''], no_redirection)"
    by code_simp+
  show ?thesis
    by (simp add: runPipeline_def create_pipes.simps spawn_stages.simps ex child_def
        child_pipe_stdin_def child_pipe_stdout_def child_stdin_file_def child_stdout_file_def
        no_redirection_def ignoring_os_def last_wait_fails_os_def quiet_os_def shell0_def
        waitpid_def terminated_def perror_def write_stderr_def dup2_def STDIN_FILENO_def
        STDOUT_FILENO_def)
qed

subsection \<open>C3: quoting and escaping\<close>



subsection \<open>C4: the redirection extractor\<close>

text \<open>
  C4: for every word list, the extractor returns what the scan of the specification
  describes. An operator met with a string after it records that string, trimmed, as
  the input or output path (appending exactly for \<open>>>\<close>), and neither is an argument; an
  operator met as the last string records nothing; of several redirections of one
  direction the last wins; every other string is an argument, in order.
\<close>

theorem extractRedirections_scan:
  "extractRedirections ws
     = (arguments (scan_stage ws), last_wins no_redirection (scan_stage ws))"
  by (simp add: extractRedirections_def extractRedirections_loop_scan)

theorem extractRedirections_scan_witness:
  "extractRedirections [''a'', ''<'', '' f '', ''b'', ''>>'', ''g'', ''>'', ''h'', ''<'']
     = ([''a'', ''b''], \<lparr>stdin_file = ''f'', stdout_file = ''h'', stdout_append = False\<rparr>)"
proof -
  let ?ws = "[''a'', ''<'', '' f '', ''b'', ''>>'', ''g'', ''>'', ''h'', ''<'']"
  have "extractRedirections ?ws
      = (arguments (scan_stage ?ws), last_wins no_redirection (scan_stage ?ws))"
    by (rule extractRedirections_scan)
  also have "\<dots> = ([''a'', ''b''],
      \<lparr>stdin_file = ''f'', stdout_file = ''h'', stdout_append = False\<rparr>)"
    by code_simp
  finally show ?thesis .
qed

subsection \<open>C5: pipe descriptors on the failure paths\<close>

text \<open>
  C5 asks that every pipe descriptor the parent created be closed before \<open>runPipeline\<close>
  returns \<open>-1\<close>. The path of a failed \<open>fork\<close> does so (lemma
  \<open>spawn_stages_failure_closes_pipes\<close>); the path of a failed \<open>pipe\<close> does not. With three
  stages, a first pipe on descriptors 3 and 4 and a second \<open>pipe()\<close> that fails,
  \<open>runPipeline\<close> returns \<open>-1\<close> and both descriptors, closed before the call, are open.
\<close>

theorem runPipeline_pipe_failure_leaks:
  "fst (runPipeline (quiet_os\<lparr>pipe_res := (\<lambda>i. if i = 0 then Some (3, 4) else None)\<rparr>) shell0
          [[''a''], [''b''], [''c'']]) = Some (- 1)
   \<and> fd_table (snd (runPipeline (quiet_os\<lparr>pipe_res := (\<lambda>i. if i = 0 then Some (3, 4) else None)\<rparr>) shell0
          [[''a''], [''b''], [''c'']])) 3 = Some (PipeRead 0)
   \<and> fd_table (snd (runPipeline (quiet_os\<lparr>pipe_res := (\<lambda>i. if i = 0 then Some (3, 4) else None)\<rparr>) shell0
          [[''a''], [''b''], [''c'']])) 4 = Some (PipeWrite 0)
   \<and> fd_table shell0 3 = None \<and> fd_table shell0 4 = None"
  by (simp add: runPipeline_def create_pipes.simps quiet_os_def shell0_def perror_def write_stderr_def)

subsection \<open>C6: a line that ends in a pipe\<close>

text \<open>
  C6, as amended: for every token sequence followed by a final \<open>|\<close>, the splitter adds no
  stage for the empty rest after that \<open>|\<close>. The output has one stage for each \<open>|\<close>, and
  its last stage holds the words that stand after the \<open>|\<close> before the final one (or after
  the start of the line): it contains a word exactly when a Word token stands there.
\<close>

theorem splitIntoPipeline_trailing_pipe:
  "length (splitIntoPipeline (ts @ [\<lparr>type = Op, text = ''|''\<rparr>]))
     = length (filter is_pipe (ts @ [\<lparr>type = Op, text = ''|''\<rparr>]))
   \<and> last (splitIntoPipeline (ts @ [\<lparr>type = Op, text = ''|''\<rparr>]))
     = word_texts (after_last_pipe ts)
   \<and> (last (splitIntoPipeline (ts @ [\<lparr>type = Op, text = ''|''\<rparr>])) \<noteq> []
        \<longleftrightarrow> (\<exists>t \<in> set (after_last_pipe ts). type t = Word))"
proof -
  have l: "last (splitIntoPipeline (ts @ [\<lparr>type = Op, text = ''|''\<rparr>]))
      = word_texts (after_last_pipe ts)"
    using splitIntoPipeline_loop_current [of ts "[]" "[]"]
    by (simp add: splitIntoPipeline_def splitIntoPipeline_loop_append split_beta)
  have n: "length (splitIntoPipeline (ts @ [\<lparr>type = Op, text = ''|''\<rparr>]))
      = length (filter is_pipe (ts @ [\<lparr>type = Op, text = ''|''\<rparr>]))"
    using splitIntoPipeline_loop_stages [of ts "[]" "[]"]
    by (simp add: splitIntoPipeline_def splitIntoPipeline_loop_append split_beta is_pipe_def)
  have w: "word_texts (after_last_pipe ts) \<noteq> []
      \<longleftrightarrow> (\<exists>t \<in> set (after_last_pipe ts). type t = Word)"
    by (simp add: word_texts_def filter_empty_conv)
  from l n w show ?thesis by simp
qed

text \<open>The line \<open>ls | wc |\<close>: two stages, the last one \<open>wc\<close>.\<close>

theorem splitIntoPipeline_trailing_pipe_witness:
  "splitIntoPipeline (tokenize ''ls | wc |'') = [[''ls''], [''wc'']]
   \<and> length (splitIntoPipeline (tokenize ''ls | wc |'')) = 2
   \<and> last (splitIntoPipeline (tokenize ''ls | wc |'')) = [''wc'']"
proof -
  let ?ts = "[\<lparr>type = Word, text = ''ls''\<rparr>, \<lparr>type = Op, text = ''|''\<rparr>,
      \<lparr>type = Word, text = ''wc''\<rparr>]"
  have t: "tokenize ''ls | wc |'' = ?ts @ [\<lparr>type = Op, text = ''|''\<rparr>]"
    by code_simp
  have s: "splitIntoPipeline (tokenize ''ls | wc |'') = [[''ls''], [''wc'']]"
    by code_simp
  from splitIntoPipeline_trailing_pipe [of ?ts] s show ?thesis
    unfolding t by (simp add: is_pipe_def after_last_pipe_def word_texts_def)
qed

text \<open>
  C6 as stated fails on the line \<open>ls | |\<close>, which ends in a pipe: the stage between the
  two pipes is kept, so the output is not empty and its last stage has no word.
\<close>

theorem splitIntoPipeline_empty_last_stage_counterexample:
  "splitIntoPipeline (tokenize ''ls | |'') = [[''ls''], []]
   \<and> splitIntoPipeline (tokenize ''ls | |'') \<noteq> []
   \<and> last (splitIntoPipeline (tokenize ''ls | |'')) = []"
  by code_simp

subsection \<open>C7: the line that ends the session\<close>

text \<open>
  C7: the loop of \<open>main\<close> is left on a line exactly when its tokens are the one word
  \<open>exit\<close>; the state is then as it was, \<open>main\<close> returns and no later line is read. Every
  other line leaves the loop running: when its body ends with \<open>continue\<close>, \<open>main\<close> goes on
  with the lines that follow. So does a line whose one stage is \<open>exit\<close> with arguments:
  the builtin dispatcher reports it as handled, nothing changes and the next line is
  read. A line of two or more stages, \<open>exit\<close> among them or not, is handed to
  \<open>runPipeline\<close>, and the lines that follow are read when it returns.
\<close>

theorem exit_line_terminates:
  "(fst (main_iter os st line) = Break \<longleftrightarrow> tokenize line = [\<lparr>type = Word, text = ''exit''\<rparr>])
   \<and> (tokenize line = [\<lparr>type = Word, text = ''exit''\<rparr>] \<longrightarrow>
        main_iter os st line = (Break, st)
        \<and> main_loop os st (line # lines) = (Returns 0, printPrompt st))
   \<and> (tokenize line \<noteq> [\<lparr>type = Word, text = ''exit''\<rparr>]
        \<and> fst (main_iter os (printPrompt st) line) = Continue \<longrightarrow>
        main_loop os st (line # lines)
          = main_loop os (snd (main_iter os (printPrompt st) line)) lines)
   \<and> (tokenize line \<noteq> [\<lparr>type = Word, text = ''exit''\<rparr>]
        \<and> splitIntoPipeline (tokenize line) = [stage]
        \<and> fst (extractRedirections stage) = ''exit'' # args \<longrightarrow>
        main_iter os st line = (Continue, st)
        \<and> main_loop os st (line # lines) = main_loop os (printPrompt st) lines)
   \<and> (2 \<le> length (splitIntoPipeline (tokenize line)) \<longrightarrow>
        main_iter os st line =
          (case runPipeline os st (splitIntoPipeline (tokenize line)) of
             (None, st') \<Rightarrow> (Blocked, st')
           | (Some exit_status, st') \<Rightarrow> (Continue, st'))
        \<and> main_loop os st (line # lines) =
          (case runPipeline os (printPrompt st) (splitIntoPipeline (tokenize line)) of
             (None, st') \<Rightarrow> (NeverReturns, st')
           | (Some exit_status, st') \<Rightarrow> main_loop os st' lines))
   \<and> tryRunInParent os st (''exit'' # args) = (Inr True, st)"
proof (intro conjI impI)
  show "fst (main_iter os st line) = Break
      \<longleftrightarrow> tokenize line = [\<lparr>type = Word, text = ''exit''\<rparr>]"
  proof
    assume "fst (main_iter os st line) = Break"
    then show "tokenize line = [\<lparr>type = Word, text = ''exit''\<rparr>]"
      unfolding main_iter_def Let_def single_exit_iff
      by (auto split: if_splits prod.splits option.splits bool.splits sum.splits)
  next
    assume ex: "tokenize line = [\<lparr>type = Word, text = ''exit''\<rparr>]"
    with tokenize_trim_empty [of line] have "trim line \<noteq> []" by auto
    with ex show "fst (main_iter os st line) = Break"
      by (simp add: main_iter_def)
  qed
next
  assume ex: "tokenize line = [\<lparr>type = Word, text = ''exit''\<rparr>]"
  with tokenize_trim_empty [of line] have tr: "trim line \<noteq> []" by auto
  with ex show "main_iter os st line = (Break, st)"
    by (simp add: main_iter_def)
  have "main_iter os (printPrompt st) line = (Break, printPrompt st)"
    using ex tr by (simp add: main_iter_def)
  then show "main_loop os st (line # lines) = (Returns 0, printPrompt st)"
    by simp
next
  assume "tokenize line \<noteq> [\<lparr>type = Word, text = ''exit''\<rparr>]
      \<and> fst (main_iter os (printPrompt st) line) = Continue"
  then show "main_loop os st (line # lines)
      = main_loop os (snd (main_iter os (printPrompt st) line)) lines"
    by (cases "main_iter os (printPrompt st) line") simp
next
  assume a: "tokenize line \<noteq> [\<lparr>type = Word, text = ''exit''\<rparr>]
      \<and> splitIntoPipeline (tokenize line) = [stage]
      \<and> fst (extractRedirections stage) = ''exit'' # args"
  then have ne: "tokenize line \<noteq> [\<lparr>type = Word, text = ''exit''\<rparr>]"
    and sp: "splitIntoPipeline (tokenize line) = [stage]"
    and ex: "fst (extractRedirections stage) = ''exit'' # args" by simp_all
  have tr: "trim line \<noteq> []"
  proof
    assume "trim line = []"
    then have "tokenize line = []" by (rule tokenize_trim_empty)
    with sp show False by (simp add: splitIntoPipeline_def)
  qed
  have body: "main_iter os s line = (Continue, s)" for s
  proof -
    from ex have "single_stage os s stage = (Inr True, s)"
      by (simp add: single_stage_def split_beta tryRunInParent_def)
    with tr ne sp show ?thesis
      unfolding main_iter_def Let_def single_exit_iff by simp
  qed
  show "main_iter os st line = (Continue, st)" by (rule body)
  show "main_loop os st (line # lines) = main_loop os (printPrompt st) lines"
    by (simp add: body)
next
  assume two: "2 \<le> length (splitIntoPipeline (tokenize line))"
  have ne: "tokenize line \<noteq> [\<lparr>type = Word, text = ''exit''\<rparr>]"
  proof
    assume "tokenize line = [\<lparr>type = Word, text = ''exit''\<rparr>]"
    with two show False by (simp add: splitIntoPipeline_def)
  qed
  have tr: "trim line \<noteq> []"
  proof
    assume "trim line = []"
    then have "tokenize line = []" by (rule tokenize_trim_empty)
    with two show False by (simp add: splitIntoPipeline_def)
  qed
  from two have many: "splitIntoPipeline (tokenize line) \<noteq> []"
    "length (splitIntoPipeline (tokenize line)) \<noteq> 1" by auto
  have body: "main_iter os s line =
      (case runPipeline os s (splitIntoPipeline (tokenize line)) of
         (None, st') \<Rightarrow> (Blocked, st')
       | (Some exit_status, st') \<Rightarrow> (Continue, st'))" for s
    using tr ne many unfolding main_iter_def Let_def single_exit_iff by simp
  show "main_iter os st line =
      (case runPipeline os st (splitIntoPipeline (tokenize line)) of
         (None, st') \<Rightarrow> (Blocked, st')
       | (Some exit_status, st') \<Rightarrow> (Continue, st'))"
    by (rule body)
  show "main_loop os st (line # lines) =
      (case runPipeline os (printPrompt st) (splitIntoPipeline (tokenize line)) of
         (None, st') \<Rightarrow> (NeverReturns, st')
       | (Some exit_status, st') \<Rightarrow> main_loop os st' lines)"
    by (simp add: body split: prod.splits option.splits)
next
  show "tryRunInParent os st (''exit'' # args) = (Inr True, st)"
    by (simp add: tryRunInParent_def)
qed

text \<open>
  The session \<open>exit 1\<close>, \<open>exit\<close>, \<open>ls\<close> goes past its first line, ends on the second and
  never reads the third. The session of the one line \<open>exit | exit\<close> runs two processes
  and ends only at the end of input.
\<close>

theorem exit_line_terminates_witness:
  "main_iter quiet_os shell0 ''exit'' = (Break, shell0)
   \<and> main_iter quiet_os shell0 ''exit 1'' = (Continue, shell0)
   \<and> main_loop quiet_os shell0 [''exit 1'', ''exit'', ''ls'']
       = (Returns 0, printPrompt (printPrompt shell0))
   \<and> tryRunInParent quiet_os shell0 [''exit'', ''1''] = (Inr True, shell0)
   \<and> fst (main_iter quiet_os shell0 ''exit | exit'') = Continue
   \<and> fst (main_loop quiet_os shell0 [''exit | exit'']) = Returns 0
   \<and> map fst (spawned (snd (main_loop quiet_os shell0 [''exit | exit'']))) = [100, 101]
   \<and> stdout_text (snd (main_loop quiet_os shell0 [''exit | exit'']))
       = ''myshelll> myshelll> '' @ newline"
proof -
  let ?exit = "[\<lparr>type = Word, text = ''exit''\<rparr>]"
  have t1: "tokenize ''exit'' = ?exit" by code_simp
  have t2: "tokenize ''exit 1'' \<noteq> ?exit
      \<and> splitIntoPipeline (tokenize ''exit 1'') = [[''exit'', ''1'']]
      \<and> fst (extractRedirections [''exit'', ''1'']) = ''exit'' # [''1'']"
    by code_simp
  have t3: "splitIntoPipeline (tokenize ''exit | exit'') = [[''exit''], [''exit'']]"
    by code_simp
  have ex: "extractRedirections [''exit''] = ([''exit''], no_redirection)"
    by code_simp
  have run: "fst (runPipeline quiet_os s [[''exit''], [''exit'']]) = Some 0
      \<and> map fst (spawned (snd (runPipeline quiet_os s [[''exit''], [''exit'']])))
          = map fst (spawned s) @ [100, 101]
      \<and> stdout_text (snd (runPipeline quiet_os s [[''exit''], [''exit'']])) = stdout_text s"
    for s
    by (simp add: runPipeline_def create_pipes.simps spawn_stages.simps ex child_def
        child_pipe_stdin_def child_pipe_stdout_def child_stdin_file_def child_stdout_file_def
        no_redirection_def quiet_os_def waitpid_def terminated_def dup2_def STDIN_FILENO_def
        STDOUT_FILENO_def)
  note a = exit_line_terminates [of quiet_os shell0 "''exit''" "[''ls'']"]
  note b = exit_line_terminates [of quiet_os shell0 "''exit 1''" "[''exit'', ''ls'']"
      "[''exit'', ''1'']" "[''1'']"]
  note c = exit_line_terminates [of quiet_os "printPrompt shell0" "''exit''" "[''ls'']"]
  note d = exit_line_terminates [of quiet_os shell0 "''exit | exit''" "[]"]
  have s1: "main_iter quiet_os shell0 ''exit'' = (Break, shell0)"
    using a t1 by simp
  have s2: "main_iter quiet_os shell0 ''exit 1'' = (Continue, shell0)"
    and s3: "main_loop quiet_os shell0 [''exit 1'', ''exit'', ''ls'']
       = main_loop quiet_os (printPrompt shell0) [''exit'', ''ls'']"
    using b t2 by simp_all
  have s4: "main_loop quiet_os (printPrompt shell0) [''exit'', ''ls'']
       = (Returns 0, printPrompt (printPrompt shell0))"
    using c t1 by simp
  have s5: "tryRunInParent quiet_os shell0 [''exit'', ''1''] = (Inr True, shell0)"
    using b by simp
  obtain r s where rs: "runPipeline quiet_os shell0 [[''exit''], [''exit'']] = (r, s)"
    by (cases "runPipeline quiet_os shell0 [[''exit''], [''exit'']]")
  obtain r' s' where rs': "runPipeline quiet_os (printPrompt shell0) [[''exit''], [''exit'']] = (r', s')"
    by (cases "runPipeline quiet_os (printPrompt shell0) [[''exit''], [''exit'']]")
  from run [of shell0] rs have r: "r = Some 0" by simp
  from run [of "printPrompt shell0"] rs' have r': "r' = Some 0"
    and sp: "map fst (spawned s') = [100, 101]"
    and out: "stdout_text s' = ''myshelll> ''"
    by (simp_all add: printPrompt_def write_stdout_def shell0_def)
  have s6: "fst (main_iter quiet_os shell0 ''exit | exit'') = Continue"
    using d t3 rs r by simp
  have s7: "main_loop quiet_os shell0 [''exit | exit''] = main_loop quiet_os s' []"
    using d t3 rs' r' by simp
  show ?thesis
    using s1 s2 s3 s4 s5 s6 s7 sp out
    by (simp add: printPrompt_def write_stdout_def)
qed

subsection \<open>C8: a failing \<open>cd\<close>\<close>

text \<open>
  C8: \<open>cd\<close> without an argument when \<open>HOME\<close> is not set, \<open>cd\<close> without an argument when
  \<open>HOME\<close> names a directory that cannot be entered, and \<open>cd\<close> to a directory that cannot be
  entered each write one message to the error stream, change nothing else of the state
  (the working directory stays), and report the command as handled. A line whose only
  stage is such a \<open>cd\<close> ends the loop body with \<open>continue\<close>, and \<open>main\<close> goes on with the
  lines that follow.
\<close>

theorem cd_failure_handled:
  "(getenv os ''HOME'' = None \<longrightarrow>
      tryRunInParent os st [''cd'']
        = (Inr True, st\<lparr>stderr_log := stderr_log st @ [''cd: HOME not set'' @ newline]\<rparr>))
   \<and> (getenv os ''HOME'' = Some home \<and> home \<noteq> [] \<and> chdir os (cwd st) home = Inl what \<longrightarrow>
      tryRunInParent os st [''cd'']
        = (Inr True, st\<lparr>stderr_log := stderr_log st @ [''cd: '' @ what @ newline]\<rparr>))
   \<and> (chdir os (cwd st) dir = Inl what \<longrightarrow>
      tryRunInParent os st (''cd'' # dir # more_args)
        = (Inr True, st\<lparr>stderr_log := stderr_log st @ [''cd: '' @ what @ newline]\<rparr>))
   \<and> (splitIntoPipeline (tokenize line) = [stage]
        \<and> fst (extractRedirections stage) = ''cd'' # args \<longrightarrow>
      main_iter os st line = (Continue, snd (tryRunInParent os st (''cd'' # args)))
      \<and> main_loop os st (line # lines)
          = main_loop os (snd (tryRunInParent os (printPrompt st) (''cd'' # args))) lines)"
proof (intro conjI impI)
  assume "getenv os ''HOME'' = None"
  then show "tryRunInParent os st [''cd'']
      = (Inr True, st\<lparr>stderr_log := stderr_log st @ [''cd: HOME not set'' @ newline]\<rparr>)"
    by (simp add: tryRunInParent_def getenv_or_empty_def write_stderr_def)
next
  assume "getenv os ''HOME'' = Some home \<and> home \<noteq> [] \<and> chdir os (cwd st) home = Inl what"
  then show "tryRunInParent os st [''cd'']
      = (Inr True, st\<lparr>stderr_log := stderr_log st @ [''cd: '' @ what @ newline]\<rparr>)"
    by (simp add: tryRunInParent_def getenv_or_empty_def write_stderr_def cd_to_def)
next
  assume "chdir os (cwd st) dir = Inl what"
  then show "tryRunInParent os st (''cd'' # dir # more_args)
      = (Inr True, st\<lparr>stderr_log := stderr_log st @ [''cd: '' @ what @ newline]\<rparr>)"
    by (simp add: tryRunInParent_def write_stderr_def cd_to_def)
next
  assume "splitIntoPipeline (tokenize line) = [stage]
      \<and> fst (extractRedirections stage) = ''cd'' # args"
  then have sp: "splitIntoPipeline (tokenize line) = [stage]"
    and ex: "fst (extractRedirections stage) = ''cd'' # args" by simp_all
  have body: "main_iter os s line = (Continue, snd (tryRunInParent os s (''cd'' # args)))"
    for s
  proof -
    have handled: "fst (tryRunInParent os s (''cd'' # args)) = Inr True"
      by (simp add: tryRunInParent_def split: list.splits)
    from ex have single: "single_stage os s stage = tryRunInParent os s (''cd'' # args)"
      by (simp add: single_stage_def split_beta)
    from cd_line_tokens [OF sp ex] sp single handled show ?thesis
      unfolding main_iter_def Let_def single_exit_iff by (simp add: split_beta)
  qed
  show "main_iter os st line = (Continue, snd (tryRunInParent os st (''cd'' # args)))"
    by (rule body)
  show "main_loop os st (line # lines)
      = main_loop os (snd (tryRunInParent os (printPrompt st) (''cd'' # args))) lines"
    by (simp add: body)
qed

text \<open>
  \<open>cd\<close> with \<open>HOME\<close> not set, \<open>cd\<close> with \<open>HOME\<close> set to \<open>/gone\<close>, and the line
  \<open>cd /nonexistent\<close>.
\<close>

theorem cd_failure_handled_witness:
  "tryRunInParent quiet_os shell0 [''cd'']
     = (Inr True, shell0\<lparr>stderr_log := [''cd: HOME not set'' @ newline]\<rparr>)
   \<and> tryRunInParent (quiet_os\<lparr>getenv := [''HOME'' \<mapsto> ''/gone'']\<rparr>) shell0 [''cd'']
     = (Inr True, shell0\<lparr>stderr_log := [''cd: No such file or directory'' @ newline]\<rparr>)
   \<and> tryRunInParent quiet_os shell0 [''cd'', ''/nonexistent'']
     = (Inr True, shell0\<lparr>stderr_log := [''cd: No such file or directory'' @ newline]\<rparr>)
   \<and> main_iter quiet_os shell0 ''cd /nonexistent''
     = (Continue, shell0\<lparr>stderr_log := [''cd: No such file or directory'' @ newline]\<rparr>)
   \<and> cwd (snd (main_iter quiet_os shell0 ''cd /nonexistent'')) = cwd shell0
   \<and> main_loop quiet_os shell0 [''cd /nonexistent'']
     = (Returns 0,
        shell0\<lparr>stdout_text := ''myshelll> myshelll> '' @ newline,
          stderr_log := [''cd: No such file or directory'' @ newline]\<rparr>)"
proof -
  let ?os = "quiet_os\<lparr>getenv := [''HOME'' \<mapsto> ''/gone'']\<rparr>"
  have sp: "splitIntoPipeline (tokenize ''cd /nonexistent'') = [[''cd'', ''/nonexistent'']]"
    by code_simp
  have ex: "fst (extractRedirections [''cd'', ''/nonexistent'']) = [''cd'', ''/nonexistent'']"
    by code_simp
  have h1: "getenv quiet_os ''HOME'' = None" by (simp add: quiet_os_def)
  have h2: "getenv ?os ''HOME'' = Some ''/gone'' \<and> ''/gone'' \<noteq> []
      \<and> chdir ?os (cwd shell0) ''/gone'' = Inl ''No such file or directory''"
    by (simp add: quiet_os_def)
  have h3: "chdir quiet_os (cwd shell0) ''/nonexistent'' = Inl ''No such file or directory''"
    by (simp add: quiet_os_def)
  have h4: "chdir quiet_os (cwd (printPrompt shell0)) ''/nonexistent''
      = Inl ''No such file or directory''"
    by (simp add: quiet_os_def)
  have log: "stderr_log shell0 = []" "stderr_log (printPrompt shell0) = []"
    by (simp_all add: shell0_def printPrompt_def write_stdout_def)
  note a = cd_failure_handled [of quiet_os shell0 "''/gone''" "''No such file or directory''"
      "''/nonexistent''" "[]" "''cd /nonexistent''" "[''cd'', ''/nonexistent'']"
      "[''/nonexistent'']" "[]"]
  note b = cd_failure_handled [of ?os shell0 "''/gone''" "''No such file or directory''"]
  note c = cd_failure_handled [of quiet_os "printPrompt shell0" "''/gone''"
      "''No such file or directory''" "''/nonexistent''" "[]"]
  have session: "main_loop quiet_os shell0 [''cd /nonexistent'']
      = main_loop quiet_os
          ((printPrompt shell0)\<lparr>stderr_log := [''cd: No such file or directory'' @ newline]\<rparr>) []"
    using a c sp ex h4 log by simp
  have "main_loop quiet_os shell0 [''cd /nonexistent'']
      = (Returns 0,
         shell0\<lparr>stdout_text := ''myshelll> myshelll> '' @ newline,
           stderr_log := [''cd: No such file or directory'' @ newline]\<rparr>)"
    unfolding session by (simp add: printPrompt_def write_stdout_def shell0_def)
  then show ?thesis
    using sp ex h1 h2 h3 log a b by simp
qed

subsection \<open>C9: the operators \<open>&\<close> and \<open>;\<close>\<close>



subsection \<open>C10: an empty quoted string\<close>

text \<open>
  C10: a line that is only an empty pair of single or double quotes is one Word token
  with the empty text. Its stage and its argument list are the one empty string, which
  is not an empty list: the stage is not passed over and no builtin takes it, so, when
  \<open>fork\<close> succeeds, a child is spawned for it. With \<open>execvp\<close> failing on the empty program
  name the child leaves with code 127, which \<open>runPipeline\<close> returns when the wait
  succeeds, and the loop goes on.
\<close>

theorem empty_quoted_word_executed:
  assumes "fork_res os 0 = Some pid" and "execvp_fails os 0 ['''']" and "\<not> wait_fails os pid"
  shows "tokenize [squote, squote] = [\<lparr>type = Word, text = ''''\<rparr>]
    \<and> tokenize [dquote, dquote] = [\<lparr>type = Word, text = ''''\<rparr>]
    \<and> splitIntoPipeline [\<lparr>type = Word, text = ''''\<rparr>] = [['''']]
    \<and> extractRedirections [''''] = ([''''], no_redirection)
    \<and> single_stage os st [''''] = (Inr False, st)
    \<and> child os 1 0 [] [''''] no_redirection (fd_table st) = ChildExit 127 ''execvp: ''
    \<and> runPipeline os st [['''']] = (Some 127, st\<lparr>spawned := spawned st @ [(pid, ChildExit 127 ''execvp: '')]\<rparr>)
    \<and> main_iter os st [squote, squote] = (Continue, st\<lparr>spawned := spawned st @ [(pid, ChildExit 127 ''execvp: '')]\<rparr>)
    \<and> main_iter os st [dquote, dquote] = (Continue, st\<lparr>spawned := spawned st @ [(pid, ChildExit 127 ''execvp: '')]\<rparr>)"
proof -
  have t1: "tokenize [squote, squote] = [\<lparr>type = Word, text = ''''\<rparr>]" by code_simp
  have t2: "tokenize [dquote, dquote] = [\<lparr>type = Word, text = ''''\<rparr>]" by code_simp
  have tr: "trim [squote, squote] \<noteq> []" "trim [dquote, dquote] \<noteq> []" by code_simp+
  have sp: "splitIntoPipeline [\<lparr>type = Word, text = ''''\<rparr>] = [['''']]" by code_simp
  have ex: "extractRedirections [''''] = ([''''], no_redirection)" by code_simp
  have ss: "single_stage os st [''''] = (Inr False, st)"
    by (simp add: single_stage_def ex tryRunInParent_def)
  have ch: "child os 1 0 [] [''''] no_redirection (fd_table st) = ChildExit 127 ''execvp: ''"
    using assms(2)
    by (simp add: child_def child_pipe_stdin_def child_pipe_stdout_def child_stdin_file_def
        child_stdout_file_def no_redirection_def)
  have rp: "runPipeline os st [['''']] = (Some 127, st\<lparr>spawned := spawned st @ [(pid, ChildExit 127 ''execvp: '')]\<rparr>)"
    using assms ch
    by (simp add: runPipeline_def create_pipes.simps spawn_stages.simps ex waitpid_def terminated_def)
  have m1: "main_iter os st [squote, squote] = (Continue, st\<lparr>spawned := spawned st @ [(pid, ChildExit 127 ''execvp: '')]\<rparr>)"
    unfolding main_iter_def Let_def single_exit_iff by (simp add: tr t1 sp ss rp)
  have m2: "main_iter os st [dquote, dquote] = (Continue, st\<lparr>spawned := spawned st @ [(pid, ChildExit 127 ''execvp: '')]\<rparr>)"
    unfolding main_iter_def Let_def single_exit_iff by (simp add: tr t2 sp ss rp)
  from t1 t2 sp ex ss ch rp m1 m2 show ?thesis by simp
qed

theorem empty_quoted_word_executed_witness:
  "runPipeline quiet_os shell0 [['''']] = (Some 127, shell0\<lparr>spawned := [(100, ChildExit 127 ''execvp: '')]\<rparr>)
   \<and> main_iter quiet_os shell0 [squote, squote] = (Continue, shell0\<lparr>spawned := [(100, ChildExit 127 ''execvp: '')]\<rparr>)"
proof -
  have "fork_res quiet_os 0 = Some 100" "execvp_fails quiet_os 0 ['''']" "\<not> wait_fails quiet_os 100"
    "spawned shell0 = []"
    by (simp_all add: quiet_os_def shell0_def)
  from empty_quoted_word_executed [OF this(1,2,3), of shell0] this(4) show ?thesis by simp
qed

end
